theory Spec2Isabelle
  imports Complex_Main
begin

section \<open>Data model\<close>

text \<open>
  The chart is written in JavaScript; its numbers are modelled as exact rationals, so
  that \<open>+\<close>, \<open>-\<close>, \<open>*\<close> and \<open>/\<close> are the arithmetic the formulas of the source
  denote (rounding of doubles is outside the model). A date is a rational too: its
  position on the time line, counted in the axis unit \<open>gantt.config.unit\<close>.

  \<open>task.progress\<close> comes from the caller and may be anything; the values the
  clamping of \<open>prepare_values\<close> tells apart are kept as a datatype.
\<close>

datatype js_value = Undefined | Null | NaN | Num rat

record options =
  opt_padding :: rat
  opt_bar_height :: rat
  opt_arrow_curve :: rat
  opt_bar_corner_radius :: rat

record config =
  cfg_column_width :: rat
  cfg_step :: rat
  cfg_header_height :: rat
  cfg_ignored_positions :: "rat list"

text \<open>The chart object \<open>this.gantt\<close> as the bars and arrows use it. Its method
  \<open>get_ignored_region\<close> is called by bar.js, but the file of the \<open>Gantt\<close> class is not
  among the sources: the method is a field of the chart, and what the theorems need of
  it is assumed where it is needed.\<close>

record gantt =
  gantt_options :: options
  gantt_config :: config
  gantt_start :: rat
  get_ignored_region :: "js_value \<Rightarrow> rat list"

text \<open>\<open>task_start_date\<close> and \<open>task_end_date\<close> are the fields \<open>_start\<close> and
  \<open>_end\<close>, \<open>task_index\<close> is \<open>_index\<close>.\<close>

record task =
  task_start :: rat
  task_end :: rat
  task_start_date :: rat
  task_end_date :: rat
  task_index :: int
  task_progress :: js_value
  task_invalid :: bool

text \<open>The \<open>rect\<close> element \<open>$bar\<close>, read back through \<open>getX\<close>, \<open>getY\<close>,
  \<open>getWidth\<close> and \<open>getHeight\<close>.\<close>

record svg_rect =
  rect_x :: rat
  rect_y :: rat
  rect_width :: rat
  rect_height :: rat

record bar =
  bar_task :: task
  bar_invalid :: bool
  bar_height :: rat
  bar_image_size :: rat
  bar_x :: rat
  bar_y :: rat
  bar_duration :: rat
  bar_corner_radius :: rat
  bar_width :: rat
  bar_rect :: svg_rect
  bar_progress_width :: js_value

text \<open>\<open>prepare_values\<close> calls \<open>this.compute_x()\<close>, \<open>this.compute_y()\<close> and
  \<open>this.compute_duration()\<close>, methods of \<open>Bar\<close> in the part of bar.js that is not
  among the sources. They are parameters of the model: each gives the value it leaves in
  \<open>this.x\<close>, \<open>this.y\<close> and \<open>this.duration\<close> for a chart and a task.\<close>

record bar_methods =
  compute_x :: "gantt \<Rightarrow> task \<Rightarrow> rat"
  compute_y :: "gantt \<Rightarrow> task \<Rightarrow> rat"
  compute_duration :: "gantt \<Rightarrow> task \<Rightarrow> rat"

section \<open>bar.js: prepare_values\<close>

text \<open>JavaScript's \<open>!p\<close>, \<open>p < n\<close> and \<open>p > n\<close> on a progress value: \<open>undefined\<close>
  and \<open>NaN\<close> compare false with everything, \<open>null\<close> compares as 0.\<close>

fun js_not :: "js_value \<Rightarrow> bool" where
  "js_not Undefined = True"
| "js_not Null = True"
| "js_not NaN = True"
| "js_not (Num r) = (r = 0)"

fun js_less :: "js_value \<Rightarrow> rat \<Rightarrow> bool" where
  "js_less (Num r) n = (r < n)"
| "js_less Null n = (0 < n)"
| "js_less Undefined n = False"
| "js_less NaN n = False"

fun js_greater :: "js_value \<Rightarrow> rat \<Rightarrow> bool" where
  "js_greater (Num r) n = (r > n)"
| "js_greater Null n = (0 > n)"
| "js_greater Undefined n = False"
| "js_greater NaN n = False"

text \<open>Lines 82 to 84 of bar.js, the two \<open>if\<close> statements on \<open>this.task.progress\<close>.\<close>

definition clamp_progress :: "js_value \<Rightarrow> js_value" where
  "clamp_progress progress =
     (let progress = (if js_not progress \<or> js_less progress 0 then Num 0 else progress);
          progress = (if js_greater progress 100 then Num 100 else progress)
      in progress)"

definition prepare_values :: "bar_methods \<Rightarrow> gantt \<Rightarrow> bar \<Rightarrow> bar" where
  "prepare_values m g this =
     (let this = this\<lparr>bar_invalid := task_invalid (bar_task this)\<rparr>;
          this = this\<lparr>bar_height := opt_bar_height (gantt_options g)\<rparr>;
          this = this\<lparr>bar_image_size := bar_height this - 5\<rparr>;
          this = this\<lparr>bar_task := (bar_task this)
                   \<lparr>task_start_date := task_start (bar_task this)\<rparr>\<rparr>;
          this = this\<lparr>bar_task := (bar_task this)
                   \<lparr>task_end_date := task_end (bar_task this)\<rparr>\<rparr>;
          this = this\<lparr>bar_x := compute_x m g (bar_task this)\<rparr>;
          this = this\<lparr>bar_y := compute_y m g (bar_task this)\<rparr>;
          this = this\<lparr>bar_duration := compute_duration m g (bar_task this)\<rparr>;
          this = this\<lparr>bar_corner_radius := opt_bar_corner_radius (gantt_options g)\<rparr>;
          this = this\<lparr>bar_width := cfg_column_width (gantt_config g) * bar_duration this\<rparr>;
          this = this\<lparr>bar_task := (bar_task this)
                   \<lparr>task_progress := clamp_progress (task_progress (bar_task this))\<rparr>\<rparr>
      in this)"

text \<open>\<open>draw_bar\<close> creates the \<open>rect\<close> element \<open>$bar\<close> from the values prepared.\<close>

definition draw_bar :: "bar \<Rightarrow> bar" where
  "draw_bar this =
     this\<lparr>bar_rect := \<lparr>rect_x = bar_x this, rect_y = bar_y this,
                        rect_width = bar_width this, rect_height = bar_height this\<rparr>\<rparr>"

section \<open>bar.js: calculate_progress_width\<close>

text \<open>The two \<open>reduce\<close> calls over \<open>ignored_positions\<close>: the accumulator grows by
  the truth value of \<open>val >= this.x && val < end\<close>, that is by 1 or by 0.\<close>

definition count_ignored :: "rat list \<Rightarrow> rat \<Rightarrow> rat \<Rightarrow> rat" where
  "count_ignored ignored_positions x e =
     foldl (\<lambda>acc val. acc + of_bool (val \<ge> x \<and> val < e)) 0 ignored_positions"

text \<open>The \<open>while\<close> loop of lines 239 to 244. It need not end (a column width of 0 with
  the right edge inside an ignored region never leaves it), so not returning is the
  value \<open>None\<close>.\<close>

partial_function (option) extend_progress :: "gantt \<Rightarrow> rat \<Rightarrow> rat \<Rightarrow> rat option" where
  "extend_progress g x progress_width =
     (if length (get_ignored_region g (Num (x + progress_width))) \<noteq> 0
      then extend_progress g x (progress_width + cfg_column_width (gantt_config g))
      else Some progress_width)"

text \<open>What \<open>this.task.progress\<close> is in a product: \<open>null\<close> counts as 0, \<open>undefined\<close>
  and \<open>NaN\<close> make the product \<open>NaN\<close>.\<close>

fun to_number :: "js_value \<Rightarrow> rat option" where
  "to_number (Num r) = Some r"
| "to_number Null = Some 0"
| "to_number Undefined = None"
| "to_number NaN = None"

text \<open>Lines 216 to 232 for a numeric progress: the width before the loop.\<close>

definition progress_width_before_loop :: "config \<Rightarrow> rat \<Rightarrow> rat \<Rightarrow> rat \<Rightarrow> rat" where
  "progress_width_before_loop cfg x width progress =
     (let ignored_end = x + width;
          total_ignored_area =
            count_ignored (cfg_ignored_positions cfg) x ignored_end * cfg_column_width cfg;
          progress_width = ((width - total_ignored_area) * progress) / 100;
          progress_end = x + progress_width;
          total_ignored_progress =
            count_ignored (cfg_ignored_positions cfg) x progress_end * cfg_column_width cfg;
          progress_width = progress_width + total_ignored_progress
      in progress_width)"

text \<open>With a progress that is not a number every sum and product is \<open>NaN\<close> and every
  comparison with it is false: the loop asks \<open>get_ignored_region(NaN)\<close> again and
  again, and \<open>NaN\<close> is returned when that answer is empty.\<close>

definition calculate_progress_width :: "gantt \<Rightarrow> bar \<Rightarrow> js_value option" where
  "calculate_progress_width g this =
     (let width = rect_width (bar_rect this) in
      case to_number (task_progress (bar_task this)) of
        None \<Rightarrow> (if length (get_ignored_region g NaN) \<noteq> 0 then None else Some NaN)
      | Some progress \<Rightarrow>
          map_option Num
            (extend_progress g (bar_x this)
               (progress_width_before_loop (gantt_config g) (bar_x this) width progress)))"

text \<open>\<open>draw_progress_bar\<close> as far as the geometry goes: nothing for an invalid bar,
  else the progress width is stored in the bar.\<close>

definition draw_progress_bar :: "gantt \<Rightarrow> bar \<Rightarrow> bar option" where
  "draw_progress_bar g this =
     (if bar_invalid this then Some this
      else map_option (\<lambda>w. this\<lparr>bar_progress_width := w\<rparr>) (calculate_progress_width g this))"

text \<open>The geometry pass of \<open>refresh\<close>: \<open>prepare_values\<close>, then \<open>draw\<close>, which
  draws the bar and then the progress bar.\<close>

definition geometry :: "bar_methods \<Rightarrow> gantt \<Rightarrow> bar \<Rightarrow> bar option" where
  "geometry m g this = draw_progress_bar g (draw_bar (prepare_values m g this))"

section \<open>arrow.js: calculate_path\<close>

text \<open>
  The path is a template string; each line of the template is one command of the SVG
  path grammar, kept here as one constructor with the interpolated numbers as its
  arguments: \<open>M x y\<close>, \<open>v dy\<close>, \<open>a rx ry rotation large_arc sweep dx dy\<close>, \<open>H x\<close>,
  \<open>V y\<close>, \<open>L x y\<close>, \<open>m dx dy\<close>, \<open>l dx dy\<close>.
\<close>

datatype path_command =
    Cmd_M rat rat
  | Cmd_v rat
  | Cmd_a rat rat rat rat rat rat rat
  | Cmd_H rat
  | Cmd_V rat
  | Cmd_L rat rat
  | Cmd_m rat rat
  | Cmd_l rat rat

text \<open>The loop \<open>while (condition()) start_x -= 10\<close> of lines 31 to 37; \<open>to_x\<close> and
  \<open>from_x\<close> are \<open>getX()\<close> of the two bars.\<close>

definition condition :: "rat \<Rightarrow> rat \<Rightarrow> rat \<Rightarrow> rat \<Rightarrow> bool" where
  "condition to_x from_x padding start_x =
     (to_x < start_x + padding \<and> start_x > from_x + padding)"

function adjust_start_x :: "rat \<Rightarrow> rat \<Rightarrow> rat \<Rightarrow> rat \<Rightarrow> rat" where
  "adjust_start_x to_x from_x padding start_x =
     (if condition to_x from_x padding start_x
      then adjust_start_x to_x from_x padding (start_x - 10)
      else start_x)"
  by pat_completeness auto
termination
proof (relation "measure (\<lambda>(to_x, from_x, padding, start_x).
                    nat \<lceil>(start_x - (from_x + padding)) / 10\<rceil>)")
  show "wf (measure (\<lambda>(to_x, from_x, padding, start_x).
              nat \<lceil>(start_x - (from_x + padding)) / 10\<rceil>))"
    by simp
next
  fix to_x from_x padding start_x :: rat
  assume c: "condition to_x from_x padding start_x"
  then have pos: "0 < (start_x - (from_x + padding)) / 10"
    by (simp add: condition_def)
  have "(start_x - 10 - (from_x + padding)) / 10 = (start_x - (from_x + padding)) / 10 - 1"
    by (simp add: field_simps)
  then have "\<lceil>(start_x - 10 - (from_x + padding)) / 10\<rceil>
               = \<lceil>(start_x - (from_x + padding)) / 10\<rceil> - 1"
    by (simp only: ceiling_diff_one)
  moreover from pos have "0 < \<lceil>(start_x - (from_x + padding)) / 10\<rceil>"
    by simp
  ultimately show "((to_x, from_x, padding, start_x - 10), (to_x, from_x, padding, start_x))
          \<in> measure (\<lambda>(to_x, from_x, padding, start_x).
                nat \<lceil>(start_x - (from_x + padding)) / 10\<rceil>)"
    by simp
qed

declare adjust_start_x.simps [simp del]

text \<open>The local variables of \<open>calculate_path\<close>, each under its own name.\<close>

definition start_x :: "gantt \<Rightarrow> bar \<Rightarrow> bar \<Rightarrow> rat" where
  "start_x g from_task to_task =
     adjust_start_x (rect_x (bar_rect to_task)) (rect_x (bar_rect from_task))
       (opt_padding (gantt_options g))
       (rect_x (bar_rect from_task) + rect_width (bar_rect from_task) / 2)
     - 10"

definition start_y :: "gantt \<Rightarrow> bar \<Rightarrow> rat" where
  "start_y g from_task =
     cfg_header_height (gantt_config g)
       + opt_bar_height (gantt_options g)
       + (opt_padding (gantt_options g) + opt_bar_height (gantt_options g))
           * of_int (task_index (bar_task from_task))
       + opt_padding (gantt_options g) / 2"

definition end_x :: "bar \<Rightarrow> rat" where
  "end_x to_task = rect_x (bar_rect to_task) - 13"

definition end_y :: "gantt \<Rightarrow> bar \<Rightarrow> rat" where
  "end_y g to_task =
     cfg_header_height (gantt_config g)
       + opt_bar_height (gantt_options g) / 2
       + (opt_padding (gantt_options g) + opt_bar_height (gantt_options g))
           * of_int (task_index (bar_task to_task))
       + opt_padding (gantt_options g) / 2"

definition from_is_below_to :: "bar \<Rightarrow> bar \<Rightarrow> bool" where
  "from_is_below_to from_task to_task =
     (task_index (bar_task from_task) > task_index (bar_task to_task))"

definition clockwise :: "bar \<Rightarrow> bar \<Rightarrow> rat" where
  "clockwise from_task to_task = (if from_is_below_to from_task to_task then 1 else 0)"

text \<open>\<open>curve_y\<close> for a given \<open>curve\<close>: line 64, and again line 76 with the reduced
  curve.\<close>

definition curve_y :: "rat \<Rightarrow> bar \<Rightarrow> bar \<Rightarrow> rat" where
  "curve_y curve from_task to_task =
     (if from_is_below_to from_task to_task then - curve else curve)"

text \<open>The branch for a target that starts before the source (lines 71 to 96).\<close>

definition backward_path :: "gantt \<Rightarrow> bar \<Rightarrow> bar \<Rightarrow> path_command list" where
  "backward_path g from_task to_task =
     (let curve = opt_arrow_curve (gantt_options g);
          curve_y = curve_y curve from_task to_task;
          down_1 = opt_padding (gantt_options g) / 2 - curve;
          (down_1, curve, curve_y) =
            (if down_1 < 0
             then (0, opt_padding (gantt_options g) / 2,
                   Spec2Isabelle.curve_y (opt_padding (gantt_options g) / 2) from_task to_task)
             else (down_1, curve, curve_y));
          down_2 = rect_y (bar_rect to_task) + rect_height (bar_rect to_task) / 2 - curve_y;
          left = rect_x (bar_rect to_task) - opt_padding (gantt_options g)
      in [Cmd_M (start_x g from_task to_task) (start_y g from_task),
          Cmd_v down_1,
          Cmd_a curve curve 0 0 1 (- curve) curve,
          Cmd_H left,
          Cmd_a curve curve 0 0 (clockwise from_task to_task) (- curve) curve_y,
          Cmd_V down_2,
          Cmd_a curve curve 0 0 (clockwise from_task to_task) curve curve_y,
          Cmd_L (end_x to_task) (end_y g to_task),
          Cmd_m (- 5) (- 5),
          Cmd_l 5 5,
          Cmd_l (- 5) 5])"

text \<open>The branch for a target after the source (lines 98 to 111).\<close>

definition forward_path :: "gantt \<Rightarrow> bar \<Rightarrow> bar \<Rightarrow> path_command list" where
  "forward_path g from_task to_task =
     (let curve = opt_arrow_curve (gantt_options g);
          curve = (if end_x to_task < start_x g from_task to_task + curve
                   then end_x to_task - start_x g from_task to_task else curve);
          offset = (if from_is_below_to from_task to_task
                    then end_y g to_task + curve else end_y g to_task - curve)
      in [Cmd_M (start_x g from_task to_task) (start_y g from_task),
          Cmd_V offset,
          Cmd_a curve curve 0 0 (clockwise from_task to_task) curve curve,
          Cmd_L (end_x to_task) (end_y g to_task),
          Cmd_m (- 5) (- 5),
          Cmd_l 5 5,
          Cmd_l (- 5) 5])"

definition calculate_path :: "gantt \<Rightarrow> bar \<Rightarrow> bar \<Rightarrow> path_command list" where
  "calculate_path g from_task to_task =
     (if rect_x (bar_rect to_task)
           \<le> rect_x (bar_rect from_task) + opt_padding (gantt_options g)
      then backward_path g from_task to_task
      else forward_path g from_task to_task)"

text \<open>The shape of a path is the sequence of its command letters: the backward
  template reads \<open>M v a H a V a L m l l\<close>, the forward one \<open>M V a L m l l\<close>.\<close>

fun letter :: "path_command \<Rightarrow> char" where
  "letter (Cmd_M _ _) = CHR ''M''"
| "letter (Cmd_v _) = CHR ''v''"
| "letter (Cmd_a _ _ _ _ _ _ _) = CHR ''a''"
| "letter (Cmd_H _) = CHR ''H''"
| "letter (Cmd_V _) = CHR ''V''"
| "letter (Cmd_L _ _) = CHR ''L''"
| "letter (Cmd_m _ _) = CHR ''m''"
| "letter (Cmd_l _ _) = CHR ''l''"

definition is_backward_shape :: "path_command list \<Rightarrow> bool" where
  "is_backward_shape path = (map letter path = ''MvaHaVaLmll'')"

definition is_forward_shape :: "path_command list \<Rightarrow> bool" where
  "is_forward_shape path = (map letter path = ''MVaLmll'')"

section \<open>The progress width as the specification words it\<close>

text \<open>
  Section 4.2, over the set of ignored positions: (1) the ignored area inside the bar is
  the column width times the number of ignored positions in \<open>[x, x + w)\<close>; (2) the
  progress width is \<open>(w - total_ignored_area) * p / 100\<close>; (3) the column width times
  the number of ignored positions in \<open>[x, x + progress_width)\<close> is added back; (4) one
  column width is added for as long as the right edge lies inside an ignored region,
  that is \<open>n\<close> column widths for the first \<open>n\<close> at which it lies outside. An ignored
  position \<open>v\<close> is the left edge of an ignored column, which covers the pixels
  \<open>[v, v + c)\<close> (section 8: one day at 60 with columns of 30 covers \<open>[60,90)\<close>).
\<close>

definition ignored_between :: "rat set \<Rightarrow> rat \<Rightarrow> rat \<Rightarrow> nat" where
  "ignored_between P lo hi = card {v \<in> P. lo \<le> v \<and> v < hi}"

definition inside_ignored_region :: "rat set \<Rightarrow> rat \<Rightarrow> rat \<Rightarrow> bool" where
  "inside_ignored_region P c pos = (\<exists>v\<in>P. v \<le> pos \<and> pos < v + c)"

definition spec_base_width :: "rat set \<Rightarrow> rat \<Rightarrow> rat \<Rightarrow> rat \<Rightarrow> rat \<Rightarrow> rat" where
  "spec_base_width P c x w p =
     (let total_ignored_area = c * of_nat (ignored_between P x (x + w));
          progress_width = (w - total_ignored_area) * p / 100
      in progress_width + c * of_nat (ignored_between P x (x + progress_width)))"

definition spec_progress_width :: "rat set \<Rightarrow> rat \<Rightarrow> rat \<Rightarrow> rat \<Rightarrow> rat \<Rightarrow> rat" where
  "spec_progress_width P c x w p =
     (let progress_width = spec_base_width P c x w p;
          n = (LEAST n. \<not> inside_ignored_region P c (x + progress_width + of_nat n * c))
      in progress_width + of_nat n * c)"

text \<open>A chart reports the ignored regions of the specification when its
  \<open>get_ignored_region\<close> answers with a non-empty list exactly at the positions inside
  an ignored column.\<close>

definition reports_ignored_columns :: "gantt \<Rightarrow> bool" where
  "reports_ignored_columns g =
     (\<forall>pos. (get_ignored_region g (Num pos) \<noteq> [])
        = inside_ignored_region (set (cfg_ignored_positions (gantt_config g)))
            (cfg_column_width (gantt_config g)) pos)"

section \<open>The methods that are not among the sources\<close>

text \<open>Modelled from the spec: \<open>get_ignored_region\<close> is a method of the \<open>Gantt\<close> class,
  whose file is not among the sources. Sections 3, 4.1 and 8: the call returns the
  ignored positions whose column \<open>[val, val + column_width)\<close> holds \<open>pos\<close>; no column
  holds \<open>NaN\<close>.\<close>

fun spec_get_ignored_region :: "config \<Rightarrow> js_value \<Rightarrow> rat list" where
  "spec_get_ignored_region cfg (Num pos) =
     filter (\<lambda>val. val \<le> pos \<and> pos < val + cfg_column_width cfg)
       (cfg_ignored_positions cfg)"
| "spec_get_ignored_region cfg Undefined = []"
| "spec_get_ignored_region cfg Null = []"
| "spec_get_ignored_region cfg NaN = []"

text \<open>Modelled from the spec: \<open>compute_x\<close>, \<open>compute_y\<close> and \<open>compute_duration\<close> are
  methods of \<open>Bar\<close> in the part of bar.js that is not among the sources. Section 4.2:
  the pixel offset is the date distance from the axis start to the task's start, in
  axis units, divided by the step and multiplied by the column width; \<open>y\<close> is
  \<open>header_height + (padding + bar_height) * task.index + padding/2\<close>; the width is the
  column width times the date distance from the task's start to its end over the step,
  never negative (\<open>prepare_values\<close> multiplies the duration by the column width itself).\<close>

definition spec_methods :: bar_methods where
  "spec_methods =
     \<lparr>compute_x = (\<lambda>g t.
        (task_start_date t - gantt_start g) / cfg_step (gantt_config g)
          * cfg_column_width (gantt_config g)),
      compute_y = (\<lambda>g t.
        cfg_header_height (gantt_config g)
          + (opt_padding (gantt_options g) + opt_bar_height (gantt_options g))
              * of_int (task_index t)
          + opt_padding (gantt_options g) / 2),
      compute_duration = (\<lambda>g t.
        max 0 ((task_end_date t - task_start_date t) / cfg_step (gantt_config g)))\<rparr>"

section \<open>Concrete charts\<close>

text \<open>The constructor leaves every field but \<open>task\<close> unset until \<open>refresh\<close> runs;
  the unset fields are given 0 and \<open>Undefined\<close>.\<close>

definition new_bar :: "task \<Rightarrow> bar" where
  "new_bar t =
     \<lparr>bar_task = t, bar_invalid = False, bar_height = 0, bar_image_size = 0, bar_x = 0,
      bar_y = 0, bar_duration = 0, bar_corner_radius = 0, bar_width = 0,
      bar_rect = \<lparr>rect_x = 0, rect_y = 0, rect_width = 0, rect_height = 0\<rparr>,
      bar_progress_width = Undefined\<rparr>"

definition new_task :: "rat \<Rightarrow> rat \<Rightarrow> int \<Rightarrow> js_value \<Rightarrow> task" where
  "new_task s e i p =
     \<lparr>task_start = s, task_end = e, task_start_date = 0, task_end_date = 0,
      task_index = i, task_progress = p, task_invalid = False\<rparr>"

text \<open>A bar of a task with its rectangle at \<open>(x, y)\<close>, of the given width and height.\<close>

definition placed_bar :: "task \<Rightarrow> rat \<Rightarrow> rat \<Rightarrow> rat \<Rightarrow> rat \<Rightarrow> bar" where
  "placed_bar t x y w h =
     (new_bar t)\<lparr>bar_x := x, bar_y := y, bar_width := w, bar_height := h,
                 bar_rect := \<lparr>rect_x = x, rect_y = y, rect_width = w, rect_height = h\<rparr>\<rparr>"

text \<open>The default options (padding 18, bar height 30, corner radius 3) on a day axis
  with columns of 30 pixels that starts at day 0; the header is 85 high. The arrow
  curve (5 by default) and the ignored positions are given.\<close>

definition day_config :: "rat list \<Rightarrow> config" where
  "day_config ignored =
     \<lparr>cfg_column_width = 30, cfg_step = 1, cfg_header_height = 85,
      cfg_ignored_positions = ignored\<rparr>"

definition day_chart :: "rat list \<Rightarrow> rat \<Rightarrow> gantt" where
  "day_chart ignored curve =
     \<lparr>gantt_options = \<lparr>opt_padding = 18, opt_bar_height = 30, opt_arrow_curve = curve,
                        opt_bar_corner_radius = 3\<rparr>,
      gantt_config = day_config ignored,
      gantt_start = 0,
      get_ignored_region = spec_get_ignored_region (day_config ignored)\<rparr>"

text \<open>Section 8: one ignored day covering the pixels \<open>[60,90)\<close>, a task with \<open>x = 0\<close>,
  width 150 and progress 50.\<close>

definition holiday_chart :: gantt where
  "holiday_chart = day_chart [60] 5"

definition holiday_task :: task where
  "holiday_task = new_task 0 5 0 (Num 50)"

definition holiday_bar :: bar where
  "holiday_bar = placed_bar holiday_task 0 94 150 30"

text \<open>Section 8: task A from day 0 to day 4 in row 0, task B from day 2 to day 7 in
  row 1, B depending on A. Their bars are at \<open>(0, 94)\<close>, 120 wide, and at
  \<open>(60, 142)\<close>, 150 wide.\<close>

definition task_A :: task where
  "task_A = new_task 0 4 0 (Num 20)"

definition task_B :: task where
  "task_B = new_task 2 7 1 (Num 0)"

definition bar_A :: bar where
  "bar_A = placed_bar task_A 0 94 120 30"

definition bar_B :: bar where
  "bar_B = placed_bar task_B 60 142 150 30"

text \<open>A finished one-day task whose next day is ignored, and a finished task of a third
  of a day that lies inside the ignored day.\<close>

definition weekend_chart :: gantt where
  "weekend_chart = day_chart [30] 5"

definition friday_bar :: bar where
  "friday_bar = placed_bar (new_task 0 1 0 (Num 100)) 0 94 30 30"

definition short_bar :: bar where
  "short_bar = placed_bar (new_task (4 / 3) (5 / 3) 0 (Num 100)) 40 94 10 30"

section \<open>Clamping of the progress\<close>

lemma clamp_progress_cases:
  "clamp_progress v = (case v of Num r \<Rightarrow> Num (min 100 (max 0 r)) | _ \<Rightarrow> Num 0)"
  by (cases v) (auto simp: clamp_progress_def Let_def min_def max_def)

lemma prepare_values_progress:
  "task_progress (bar_task (prepare_values m g this))
     = clamp_progress (task_progress (bar_task this))"
  by (simp add: prepare_values_def Let_def)

text \<open>
  Claim C2. Whatever the progress of the task was (a number below 0, a number above 100,
  \<open>undefined\<close>, \<open>null\<close> or \<open>NaN\<close>), after \<open>prepare_values\<close> it is a number between 0
  and 100: a number is cut to that range, and everything else becomes 0.
\<close>

theorem prepare_values_clamps_progress:
  "task_progress (bar_task (prepare_values m g this))
     = (case task_progress (bar_task this) of
          Num r \<Rightarrow> Num (min 100 (max 0 r))
        | Undefined \<Rightarrow> Num 0 | Null \<Rightarrow> Num 0 | NaN \<Rightarrow> Num 0)
   \<and> (\<exists>p. task_progress (bar_task (prepare_values m g this)) = Num p \<and> 0 \<le> p \<and> p \<le> 100)"
  unfolding prepare_values_progress clamp_progress_cases
  by (cases "task_progress (bar_task this)") (auto simp: min_def max_def)

theorem prepare_values_clamps_progress_witness:
  "task_progress (bar_task (prepare_values spec_methods holiday_chart (new_bar (new_task 0 5 0 (Num 250)))))
     = Num 100
   \<and> task_progress (bar_task (prepare_values spec_methods holiday_chart (new_bar (new_task 0 5 0 (Num (- 3))))))
     = Num 0
   \<and> task_progress (bar_task (prepare_values spec_methods holiday_chart (new_bar (new_task 0 5 0 Undefined))))
     = Num 0"
  using prepare_values_clamps_progress [of spec_methods holiday_chart "new_bar (new_task 0 5 0 (Num 250))"]
    prepare_values_clamps_progress [of spec_methods holiday_chart "new_bar (new_task 0 5 0 (Num (- 3)))"]
    prepare_values_clamps_progress [of spec_methods holiday_chart "new_bar (new_task 0 5 0 Undefined)"]
  by (simp add: new_bar_def new_task_def)

section \<open>The arrow between two bars\<close>

lemma ex_rects:
  "bar_rect bar_A = \<lparr>rect_x = 0, rect_y = 94, rect_width = 120, rect_height = 30\<rparr>"
  "bar_rect bar_B = \<lparr>rect_x = 60, rect_y = 142, rect_width = 150, rect_height = 30\<rparr>"
  by (simp_all add: bar_A_def bar_B_def placed_bar_def new_bar_def)

lemma ex_index:
  "task_index (bar_task bar_A) = 0"
  "task_index (bar_task bar_B) = 1"
  by (simp_all add: bar_A_def bar_B_def placed_bar_def new_bar_def task_A_def task_B_def
        new_task_def)

lemma ex_values:
  "opt_bar_height (gantt_options (day_chart ign c)) = 30"
  "opt_padding (gantt_options (day_chart ign c)) = 18"
  "opt_arrow_curve (gantt_options (day_chart ign c)) = c"
  "cfg_header_height (gantt_config (day_chart ign c)) = 85"
  by (simp_all add: day_chart_def day_config_def)

lemma calculate_path_hd:
  "hd (calculate_path g f t) = Cmd_M (start_x g f t) (start_y g f)"
  by (simp add: calculate_path_def backward_path_def forward_path_def Let_def split: prod.splits)

lemma adjust_ex: "adjust_start_x 60 0 18 60 = 40"
  by (simp add: adjust_start_x.simps condition_def)

lemma sx_ex: "start_x (day_chart ign c) bar_A bar_B = 30"
  by (simp add: start_x_def ex_rects ex_values adjust_ex)


lemma backward_path_eq:
  "backward_path g f t =
     (let p = opt_padding (gantt_options g);
          c = (if p / 2 - opt_arrow_curve (gantt_options g) < 0 then p / 2
               else opt_arrow_curve (gantt_options g));
          d = (if p / 2 - opt_arrow_curve (gantt_options g) < 0 then 0
               else p / 2 - opt_arrow_curve (gantt_options g));
          cy = curve_y c f t
      in [Cmd_M (start_x g f t) (start_y g f), Cmd_v d, Cmd_a c c 0 0 1 (- c) c,
          Cmd_H (rect_x (bar_rect t) - p),
          Cmd_a c c 0 0 (clockwise f t) (- c) cy,
          Cmd_V (rect_y (bar_rect t) + rect_height (bar_rect t) / 2 - cy),
          Cmd_a c c 0 0 (clockwise f t) c cy,
          Cmd_L (end_x t) (end_y g t), Cmd_m (- 5) (- 5), Cmd_l 5 5, Cmd_l (- 5) 5])"
  by (simp add: backward_path_def Let_def)

lemma shapes:
  "is_backward_shape (backward_path g f t)" "\<not> is_backward_shape (forward_path g f t)"
  "is_forward_shape (forward_path g f t)" "\<not> is_forward_shape (backward_path g f t)"
  by (simp_all add: backward_path_eq forward_path_def is_backward_shape_def
        is_forward_shape_def Let_def)

lemma calculate_path_last:
  "\<exists>pre. calculate_path g f t
     = pre @ [Cmd_L (end_x t) (end_y g t), Cmd_m (- 5) (- 5), Cmd_l 5 5, Cmd_l (- 5) 5]"
proof (cases "rect_x (bar_rect t) \<le> rect_x (bar_rect f) + opt_padding (gantt_options g)")
  case True
  then have "calculate_path g f t = backward_path g f t"
    by (simp add: calculate_path_def)
  then have "calculate_path g f t
     = take 7 (backward_path g f t)
        @ [Cmd_L (end_x t) (end_y g t), Cmd_m (- 5) (- 5), Cmd_l 5 5, Cmd_l (- 5) 5]"
    by (simp add: backward_path_eq Let_def)
  then show ?thesis by blast
next
  case False
  then have "calculate_path g f t = forward_path g f t"
    by (simp add: calculate_path_def)
  then have "calculate_path g f t
     = take 3 (forward_path g f t)
        @ [Cmd_L (end_x t) (end_y g t), Cmd_m (- 5) (- 5), Cmd_l 5 5, Cmd_l (- 5) 5]"
    by (simp add: forward_path_def Let_def)
  then show ?thesis by blast
qed

text \<open>
  Claim C3. \<open>clockwise\<close> is 1 exactly when the source row is below the target row
  (\<open>from.index > to.index\<close>) and 0 otherwise, in particular when \<open>from.index < to.index\<close>;
  \<open>curve_y\<close> is \<open>- curve\<close> when the source is below the target and \<open>curve\<close>
  otherwise. The path carries these values: the arcs after the first have \<open>clockwise\<close>
  as their sweep flag, and the backward path uses \<open>curve_y\<close> as their vertical extent.
\<close>

theorem arrow_direction_by_row_order:
  "(clockwise from_task to_task = 1
      \<longleftrightarrow> task_index (bar_task from_task) > task_index (bar_task to_task))
   \<and> (clockwise from_task to_task = 0
      \<longleftrightarrow> task_index (bar_task from_task) \<le> task_index (bar_task to_task))
   \<and> curve_y (opt_arrow_curve (gantt_options g)) from_task to_task
       = (if task_index (bar_task from_task) > task_index (bar_task to_task)
          then - opt_arrow_curve (gantt_options g) else opt_arrow_curve (gantt_options g))
   \<and> (\<exists>c d1 d2 l off.
         calculate_path g from_task to_task =
           (if rect_x (bar_rect to_task)
                 \<le> rect_x (bar_rect from_task) + opt_padding (gantt_options g)
            then [Cmd_M (start_x g from_task to_task) (start_y g from_task),
                  Cmd_v d1,
                  Cmd_a c c 0 0 1 (- c) c,
                  Cmd_H l,
                  Cmd_a c c 0 0
                    (if task_index (bar_task from_task) > task_index (bar_task to_task)
                     then 1 else 0)
                    (- c)
                    (if task_index (bar_task from_task) > task_index (bar_task to_task)
                     then - c else c),
                  Cmd_V d2,
                  Cmd_a c c 0 0
                    (if task_index (bar_task from_task) > task_index (bar_task to_task)
                     then 1 else 0)
                    c
                    (if task_index (bar_task from_task) > task_index (bar_task to_task)
                     then - c else c),
                  Cmd_L (end_x to_task) (end_y g to_task),
                  Cmd_m (- 5) (- 5), Cmd_l 5 5, Cmd_l (- 5) 5]
            else [Cmd_M (start_x g from_task to_task) (start_y g from_task),
                  Cmd_V off,
                  Cmd_a c c 0 0
                    (if task_index (bar_task from_task) > task_index (bar_task to_task)
                     then 1 else 0)
                    c c,
                  Cmd_L (end_x to_task) (end_y g to_task),
                  Cmd_m (- 5) (- 5), Cmd_l 5 5, Cmd_l (- 5) 5]))"
proof -
  have a: "(clockwise from_task to_task = 1
      \<longleftrightarrow> task_index (bar_task from_task) > task_index (bar_task to_task))
   \<and> (clockwise from_task to_task = 0
      \<longleftrightarrow> task_index (bar_task from_task) \<le> task_index (bar_task to_task))
   \<and> curve_y (opt_arrow_curve (gantt_options g)) from_task to_task
       = (if task_index (bar_task from_task) > task_index (bar_task to_task)
          then - opt_arrow_curve (gantt_options g) else opt_arrow_curve (gantt_options g))"
    by (simp add: clockwise_def curve_y_def from_is_below_to_def)
  show ?thesis
  proof (cases "rect_x (bar_rect to_task)
                 \<le> rect_x (bar_rect from_task) + opt_padding (gantt_options g)")
    case True
    then have "calculate_path g from_task to_task = backward_path g from_task to_task"
      by (simp add: calculate_path_def)
    with True a show ?thesis
      by (simp add: backward_path_eq Let_def clockwise_def curve_y_def from_is_below_to_def)
  next
    case False
    then have "calculate_path g from_task to_task = forward_path g from_task to_task"
      by (simp add: calculate_path_def)
    with False a show ?thesis
      by (simp add: forward_path_def Let_def clockwise_def from_is_below_to_def)
  qed
qed


theorem arrow_direction_by_row_order_witness:
  "clockwise bar_A bar_B = 0
   \<and> clockwise bar_B bar_A = 1
   \<and> curve_y (opt_arrow_curve (gantt_options (day_chart [] 5)))
         bar_B bar_A = - 5"
  using arrow_direction_by_row_order
      [of bar_A bar_B
          "day_chart [] 5"]
    arrow_direction_by_row_order
      [of bar_B bar_A
          "day_chart [] 5"]
  by (simp add: ex_index ex_values)

text \<open>
  Claim C4, as amended. The path starts at
  \<open>header_height + (padding + bar_height) * from.index + padding/2 + bar_height\<close>, and its
  line into the target ends at \<open>to.x - 13\<close> and
  \<open>header_height + (padding + bar_height) * to.index + padding/2 + bar_height/2\<close>, only
  the arrowhead following. For bars that sit in their rows, at
  \<open>y = header_height + (padding + bar_height) * index + padding/2\<close> with the height
  \<open>bar_height\<close>, the start is the bottom edge of the source bar (its \<open>y\<close> plus the
  whole bar height, not the mid-line of its row) and the end is the mid-line of the
  target row (the target bar's \<open>y\<close> plus half the bar height).
\<close>

theorem arrow_endpoints:
  "hd (calculate_path g from_task to_task)
     = Cmd_M (start_x g from_task to_task)
         (cfg_header_height (gantt_config g)
            + (opt_padding (gantt_options g) + opt_bar_height (gantt_options g))
                * of_int (task_index (bar_task from_task))
            + opt_padding (gantt_options g) / 2
            + opt_bar_height (gantt_options g))
   \<and> (\<exists>pre. calculate_path g from_task to_task
         = pre @ [Cmd_L (rect_x (bar_rect to_task) - 13)
                    (cfg_header_height (gantt_config g)
                       + (opt_padding (gantt_options g) + opt_bar_height (gantt_options g))
                           * of_int (task_index (bar_task to_task))
                       + opt_padding (gantt_options g) / 2
                       + opt_bar_height (gantt_options g) / 2),
                  Cmd_m (- 5) (- 5), Cmd_l 5 5, Cmd_l (- 5) 5])
   \<and> (rect_y (bar_rect from_task)
         = cfg_header_height (gantt_config g)
             + (opt_padding (gantt_options g) + opt_bar_height (gantt_options g))
                 * of_int (task_index (bar_task from_task))
             + opt_padding (gantt_options g) / 2
       \<and> rect_height (bar_rect from_task) = opt_bar_height (gantt_options g)
       \<longrightarrow> hd (calculate_path g from_task to_task)
             = Cmd_M (start_x g from_task to_task)
                 (rect_y (bar_rect from_task) + rect_height (bar_rect from_task)))
   \<and> (rect_y (bar_rect to_task)
         = cfg_header_height (gantt_config g)
             + (opt_padding (gantt_options g) + opt_bar_height (gantt_options g))
                 * of_int (task_index (bar_task to_task))
             + opt_padding (gantt_options g) / 2
       \<and> rect_height (bar_rect to_task) = opt_bar_height (gantt_options g)
       \<longrightarrow> (\<exists>pre. calculate_path g from_task to_task
             = pre @ [Cmd_L (rect_x (bar_rect to_task) - 13)
                        (rect_y (bar_rect to_task) + rect_height (bar_rect to_task) / 2),
                      Cmd_m (- 5) (- 5), Cmd_l 5 5, Cmd_l (- 5) 5]))"
  using calculate_path_last [of g from_task to_task]
  by (simp add: calculate_path_hd start_y_def end_y_def end_x_def algebra_simps)

theorem arrow_endpoints_witness:
  "rect_y (bar_rect bar_A)
     = cfg_header_height (gantt_config (day_chart [] 5))
         + (opt_padding (gantt_options (day_chart [] 5))
              + opt_bar_height (gantt_options (day_chart [] 5)))
             * of_int (task_index (bar_task bar_A))
         + opt_padding (gantt_options (day_chart [] 5)) / 2
   \<and> rect_height (bar_rect bar_A) = opt_bar_height (gantt_options (day_chart [] 5))
   \<and> rect_y (bar_rect bar_B)
     = cfg_header_height (gantt_config (day_chart [] 5))
         + (opt_padding (gantt_options (day_chart [] 5))
              + opt_bar_height (gantt_options (day_chart [] 5)))
             * of_int (task_index (bar_task bar_B))
         + opt_padding (gantt_options (day_chart [] 5)) / 2
   \<and> rect_height (bar_rect bar_B) = opt_bar_height (gantt_options (day_chart [] 5))
   \<and> hd (calculate_path (day_chart [] 5) bar_A bar_B) = Cmd_M 30 124
   \<and> (\<exists>pre. calculate_path (day_chart [] 5) bar_A bar_B
         = pre @ [Cmd_L 47 157, Cmd_m (- 5) (- 5), Cmd_l 5 5, Cmd_l (- 5) 5])"
  using arrow_endpoints [of "day_chart [] 5" bar_A bar_B]
  by (simp add: ex_rects ex_index ex_values sx_ex)

text \<open>
  Claim C4 as stated fails. Task A is in row 0 of the day chart (header 85, padding 18,
  bar height 30): its bar has \<open>y = 85 + 18/2 = 94\<close> and the height 30, so the mid-line
  of its row is at 109; the arrow to B starts at 124.
\<close>

theorem arrow_start_not_midline:
  "hd (calculate_path (day_chart [] 5) bar_A bar_B) = Cmd_M 30 124
   \<and> rect_y (bar_rect bar_A) + rect_height (bar_rect bar_A) / 2 = 109
   \<and> hd (calculate_path (day_chart [] 5) bar_A bar_B)
       \<noteq> Cmd_M (start_x (day_chart [] 5) bar_A bar_B)
               (rect_y (bar_rect bar_A) + rect_height (bar_rect bar_A) / 2)"
  by (simp add: calculate_path_hd sx_ex ex_rects start_y_def ex_index ex_values)

lemma adjust_ex2: "adjust_start_x 0 60 18 135 = 75"
  by (simp add: adjust_start_x.simps condition_def)

lemma sx_ex2:
  "start_x (day_chart ign c) bar_B
     bar_A = 65"
  by (simp add: start_x_def ex_rects ex_values adjust_ex2)

lemma ex_arrow_values:
  "start_y (day_chart ign c) bar_A = 124"
  "start_y (day_chart ign c) bar_B = 172"
  "end_y (day_chart ign c) bar_A = 109"
  "end_y (day_chart ign c) bar_B = 157"
  "end_x bar_A = - 13"
  "end_x bar_B = 47"
  "clockwise bar_A bar_B = 0"
  "clockwise bar_B bar_A = 1"
  by (simp_all add: start_y_def end_y_def end_x_def ex_values ex_rects clockwise_def
        from_is_below_to_def ex_index)



text \<open>
  Claim C6. The path has the backward shape exactly when
  \<open>to.x \<le> from.x + padding\<close> (and the forward shape otherwise). In the backward shape,
  when \<open>padding / 2 - curve\<close> is negative, the drop before the first arc is 0, every arc
  has the radius \<open>padding / 2\<close>, and \<open>curve_y\<close> is \<open>- padding / 2\<close> when the source row
  is below the target row and \<open>padding / 2\<close> otherwise.
\<close>

theorem backward_arrow_shape:
  "(is_backward_shape (calculate_path g from_task to_task)
      \<longleftrightarrow> rect_x (bar_rect to_task)
            \<le> rect_x (bar_rect from_task) + opt_padding (gantt_options g))
   \<and> (is_forward_shape (calculate_path g from_task to_task)
      \<longleftrightarrow> rect_x (bar_rect to_task)
            > rect_x (bar_rect from_task) + opt_padding (gantt_options g))
   \<and> (rect_x (bar_rect to_task)
         \<le> rect_x (bar_rect from_task) + opt_padding (gantt_options g)
       \<and> opt_padding (gantt_options g) / 2 - opt_arrow_curve (gantt_options g) < 0
       \<longrightarrow> calculate_path g from_task to_task =
            [Cmd_M (start_x g from_task to_task) (start_y g from_task),
             Cmd_v 0,
             Cmd_a (opt_padding (gantt_options g) / 2) (opt_padding (gantt_options g) / 2)
               0 0 1 (- (opt_padding (gantt_options g) / 2)) (opt_padding (gantt_options g) / 2),
             Cmd_H (rect_x (bar_rect to_task) - opt_padding (gantt_options g)),
             Cmd_a (opt_padding (gantt_options g) / 2) (opt_padding (gantt_options g) / 2)
               0 0 (clockwise from_task to_task) (- (opt_padding (gantt_options g) / 2))
               (if task_index (bar_task from_task) > task_index (bar_task to_task)
                then - (opt_padding (gantt_options g) / 2)
                else opt_padding (gantt_options g) / 2),
             Cmd_V (rect_y (bar_rect to_task) + rect_height (bar_rect to_task) / 2
                     - (if task_index (bar_task from_task) > task_index (bar_task to_task)
                        then - (opt_padding (gantt_options g) / 2)
                        else opt_padding (gantt_options g) / 2)),
             Cmd_a (opt_padding (gantt_options g) / 2) (opt_padding (gantt_options g) / 2)
               0 0 (clockwise from_task to_task) (opt_padding (gantt_options g) / 2)
               (if task_index (bar_task from_task) > task_index (bar_task to_task)
                then - (opt_padding (gantt_options g) / 2)
                else opt_padding (gantt_options g) / 2),
             Cmd_L (end_x to_task) (end_y g to_task),
             Cmd_m (- 5) (- 5), Cmd_l 5 5, Cmd_l (- 5) 5])"
  by (simp add: calculate_path_def shapes)
     (simp add: backward_path_eq Let_def curve_y_def from_is_below_to_def)

theorem backward_arrow_shape_witness:
  "rect_x (bar_rect bar_A)
     \<le> rect_x (bar_rect bar_B)
         + opt_padding (gantt_options (day_chart [] 20))
   \<and> opt_padding (gantt_options (day_chart [] 20)) / 2
         - opt_arrow_curve (gantt_options (day_chart [] 20)) < 0
   \<and> is_backward_shape (calculate_path (day_chart [] 20) bar_B
      bar_A)
   \<and> calculate_path (day_chart [] 20) bar_B
        bar_A
     = [Cmd_M 65 172, Cmd_v 0, Cmd_a 9 9 0 0 1 (- 9) 9, Cmd_H (- 18),
        Cmd_a 9 9 0 0 1 (- 9) (- 9), Cmd_V 118, Cmd_a 9 9 0 0 1 9 (- 9),
        Cmd_L (- 13) 109, Cmd_m (- 5) (- 5), Cmd_l 5 5, Cmd_l (- 5) 5]"
  using backward_arrow_shape [where g = "day_chart [] 20" and from_task = bar_B
               and to_task = bar_A]
  by (auto simp add: ex_rects ex_values ex_index sx_ex2 ex_arrow_values)

text \<open>
  Claim C7. In the forward case (\<open>to.x > from.x + padding\<close>) the radius in the path is
  \<open>end_x - start_x\<close> when \<open>end_x < start_x + arrow_curve\<close>, and \<open>arrow_curve\<close> itself
  otherwise.
\<close>

theorem forward_arrow_curve:
  "rect_x (bar_rect to_task) > rect_x (bar_rect from_task) + opt_padding (gantt_options g)
   \<Longrightarrow> \<exists>curve.
         curve = (if end_x to_task < start_x g from_task to_task + opt_arrow_curve (gantt_options g)
                  then end_x to_task - start_x g from_task to_task
                  else opt_arrow_curve (gantt_options g))
       \<and> calculate_path g from_task to_task =
           [Cmd_M (start_x g from_task to_task) (start_y g from_task),
            Cmd_V (if task_index (bar_task from_task) > task_index (bar_task to_task)
                   then end_y g to_task + curve else end_y g to_task - curve),
            Cmd_a curve curve 0 0 (clockwise from_task to_task) curve curve,
            Cmd_L (end_x to_task) (end_y g to_task),
            Cmd_m (- 5) (- 5), Cmd_l 5 5, Cmd_l (- 5) 5]"
  by (simp add: calculate_path_def forward_path_def Let_def from_is_below_to_def)


theorem forward_arrow_curve_witness:
  "rect_x (bar_rect bar_B)
     > rect_x (bar_rect bar_A)
         + opt_padding (gantt_options (day_chart [] 20))
   \<and> calculate_path (day_chart [] 20) bar_A
        bar_B
     = [Cmd_M 30 124, Cmd_V 140, Cmd_a 17 17 0 0 0 17 17, Cmd_L 47 157,
        Cmd_m (- 5) (- 5), Cmd_l 5 5, Cmd_l (- 5) 5]
   \<and> calculate_path (day_chart [] 5) bar_A
        bar_B
     = [Cmd_M 30 124, Cmd_V 152, Cmd_a 5 5 0 0 0 5 5, Cmd_L 47 157,
        Cmd_m (- 5) (- 5), Cmd_l 5 5, Cmd_l (- 5) 5]"
  using forward_arrow_curve [where g = "day_chart [] 20" and from_task = bar_A
               and to_task = bar_B]
    forward_arrow_curve [where g = "day_chart [] 5" and from_task = bar_A
               and to_task = bar_B]
  by (simp add: ex_rects ex_values ex_index sx_ex ex_arrow_values)


section \<open>The progress width\<close>

lemma foldl_count:
  "foldl (\<lambda>acc val. acc + of_bool (P val)) (a::rat) ps = a + of_nat (length (filter P ps))"
  by (induction ps arbitrary: a) simp_all

lemma count_ignored_length:
  "count_ignored ps x e = of_nat (length (filter (\<lambda>val. x \<le> val \<and> val < e) ps))"
  unfolding count_ignored_def by (simp add: foldl_count)

text \<open>The \<open>reduce\<close> counts list entries; over a list without repetitions that is
  the number of ignored positions in the interval.\<close>

lemma count_ignored_card:
  assumes "distinct ps"
  shows "count_ignored ps x e = of_nat (ignored_between (set ps) x e)"
proof -
  have "{v \<in> set ps. x \<le> v \<and> v < e} = set (filter (\<lambda>val. x \<le> val \<and> val < e) ps)"
    by auto
  moreover have "distinct (filter (\<lambda>val. x \<le> val \<and> val < e) ps)"
    using assms by simp
  ultimately have "card {v \<in> set ps. x \<le> v \<and> v < e}
      = length (filter (\<lambda>val. x \<le> val \<and> val < e) ps)"
    by (simp only: distinct_card)
  then show ?thesis
    unfolding ignored_between_def count_ignored_length by simp
qed

lemma progress_width_before_loop_spec:
  assumes "distinct (cfg_ignored_positions cfg)"
  shows "progress_width_before_loop cfg x w p
     = spec_base_width (set (cfg_ignored_positions cfg)) (cfg_column_width cfg) x w p"
  unfolding progress_width_before_loop_def spec_base_width_def Let_def
  by (simp add: count_ignored_card [OF assms] mult.commute)

text \<open>The loop returns after \<open>n\<close> rounds when \<open>get_ignored_region\<close> answers with a
  region before each of them and with none after the last.\<close>

lemma extend_progress_steps:
  assumes "\<forall>j<n. get_ignored_region g
               (Num (x + pw + of_nat j * cfg_column_width (gantt_config g))) \<noteq> []"
    and "get_ignored_region g
               (Num (x + pw + of_nat n * cfg_column_width (gantt_config g))) = []"
  shows "extend_progress g x pw = Some (pw + of_nat n * cfg_column_width (gantt_config g))"
  using assms
proof (induction n arbitrary: pw)
  case 0
  then show ?case
    by (subst extend_progress.simps) simp
next
  case (Suc n)
  let ?c = "cfg_column_width (gantt_config g)"
  have shift: "\<And>j::nat. x + (pw + ?c) + of_nat j * ?c = x + pw + of_nat (Suc j) * ?c"
    by (simp add: algebra_simps)
  from Suc.prems(1) have "get_ignored_region g (Num (x + pw + of_nat (0::nat) * ?c)) \<noteq> []"
    by blast
  then have here: "get_ignored_region g (Num (x + pw)) \<noteq> []"
    by simp
  have "extend_progress g x (pw + ?c) = Some (pw + ?c + of_nat n * ?c)"
  proof (rule Suc.IH)
    show "\<forall>j<n. get_ignored_region g (Num (x + (pw + ?c) + of_nat j * ?c)) \<noteq> []"
      using Suc.prems(1) unfolding shift by auto
    show "get_ignored_region g (Num (x + (pw + ?c) + of_nat n * ?c)) = []"
      using Suc.prems(2) unfolding shift .
  qed
  with here show ?case
    by (subst extend_progress.simps) (simp add: algebra_simps)
qed

lemma extend_progress_least:
  assumes "\<exists>n::nat. get_ignored_region g
               (Num (x + pw + of_nat n * cfg_column_width (gantt_config g))) = []"
  shows "extend_progress g x pw
     = Some (pw + of_nat (LEAST n. get_ignored_region g
                 (Num (x + pw + of_nat n * cfg_column_width (gantt_config g))) = [])
               * cfg_column_width (gantt_config g))"
proof (rule extend_progress_steps)
  let ?Q = "\<lambda>n::nat. get_ignored_region g
               (Num (x + pw + of_nat n * cfg_column_width (gantt_config g))) = []"
  show "?Q (LEAST n. ?Q n)" using assms by (rule LeastI_ex)
  show "\<forall>j<(LEAST n. ?Q n). get_ignored_region g
               (Num (x + pw + of_nat j * cfg_column_width (gantt_config g))) \<noteq> []"
    using not_less_Least by blast
qed

text \<open>With a positive column width the right edge gets past every bound.\<close>

lemma passes_bound:
  assumes "0 < (c::rat)"
  shows "\<exists>n::nat. B \<le> pos + of_nat n * c"
proof -
  from ex_less_of_nat_mult [OF assms, of "B - pos"]
  obtain n :: nat where "B - pos < of_nat n * c" by blast
  then have "B \<le> pos + of_nat n * c" by simp
  then show ?thesis by blast
qed

lemma leaves_bounded_regions:
  assumes "0 < cfg_column_width (gantt_config g)"
    and "\<forall>pos. get_ignored_region g (Num pos) \<noteq> [] \<longrightarrow> pos < B"
  shows "\<exists>n::nat. get_ignored_region g
               (Num (pos + of_nat n * cfg_column_width (gantt_config g))) = []"
proof -
  from passes_bound [OF assms(1), of B pos]
  obtain n :: nat where n: "B \<le> pos + of_nat n * cfg_column_width (gantt_config g)"
    by blast
  have "get_ignored_region g (Num (pos + of_nat n * cfg_column_width (gantt_config g))) = []"
  proof (rule ccontr)
    assume "get_ignored_region g
              (Num (pos + of_nat n * cfg_column_width (gantt_config g))) \<noteq> []"
    with assms(2) have "pos + of_nat n * cfg_column_width (gantt_config g) < B" by blast
    with n show False by simp
  qed
  then show ?thesis by blast
qed

text \<open>Finitely many ignored columns of a positive width all end before some bound.\<close>

lemma ignored_columns_bounded:
  assumes "0 < c" "finite P"
  shows "\<exists>B. \<forall>pos. inside_ignored_region P c pos \<longrightarrow> pos < B"
proof (cases "P = {}")
  case True
  then show ?thesis by (simp add: inside_ignored_region_def)
next
  case False
  have "\<forall>pos. inside_ignored_region P c pos \<longrightarrow> pos < Max P + c"
  proof (intro allI impI)
    fix pos assume "inside_ignored_region P c pos"
    then obtain v where v: "v \<in> P" "pos < v + c"
      by (auto simp: inside_ignored_region_def)
    from v(1) assms(2) have "v \<le> Max P" by simp
    with v(2) show "pos < Max P + c" by simp
  qed
  then show ?thesis by blast
qed

lemma reported_columns_bounded:
  assumes "0 < cfg_column_width (gantt_config g)" and "reports_ignored_columns g"
  shows "\<exists>B. \<forall>pos. get_ignored_region g (Num pos) \<noteq> [] \<longrightarrow> pos < B"
  using ignored_columns_bounded
    [OF assms(1), of "set (cfg_ignored_positions (gantt_config g))"] assms(2)
  by (simp add: reports_ignored_columns_def)

text \<open>The loop does not end when the column width is 0 and the right edge is inside an
  ignored region.\<close>

lemma extend_progress_zero_width:
  assumes "cfg_column_width (gantt_config g) = 0"
    and "get_ignored_region g (Num (x + pw)) \<noteq> []"
  shows "extend_progress g x pw = None"
proof (rule ccontr)
  assume "extend_progress g x pw \<noteq> None"
  then obtain y where y: "extend_progress g x pw = Some y" by blast
  note ind = extend_progress.raw_induct
    [where xa = "((g, x), pw)" and y = y, unfolded prod.case]
  have "\<not> (cfg_column_width (gantt_config g) = 0
            \<and> get_ignored_region g (Num (x + pw)) \<noteq> [])"
  proof (rule ind [where P = "\<lambda>c a w r.
            \<not> (cfg_column_width (gantt_config c) = 0
                 \<and> get_ignored_region c (Num (a + w)) \<noteq> [])"])
    show "extend_progress g x pw = Some y" by (rule y)
  next
    fix extend c a w r
    assume ih: "\<And>c a w r. extend c a w = Some r
              \<Longrightarrow> \<not> (cfg_column_width (gantt_config c) = 0
                       \<and> get_ignored_region c (Num (a + w)) \<noteq> [])"
      and eq: "(if length (get_ignored_region c (Num (a + w))) \<noteq> 0
                then extend c a (w + cfg_column_width (gantt_config c)) else Some w) = Some r"
    show "\<not> (cfg_column_width (gantt_config c) = 0
              \<and> get_ignored_region c (Num (a + w)) \<noteq> [])"
    proof
      assume z: "cfg_column_width (gantt_config c) = 0
                   \<and> get_ignored_region c (Num (a + w)) \<noteq> []"
      with eq have "extend c a (w + cfg_column_width (gantt_config c)) = Some r" by simp
      from ih [OF this] z show False by simp
    qed
  qed
  with assms show False by simp
qed

text \<open>On a chart that reports the ignored columns, the number of rounds is the least
  number of column widths that takes the right edge out of them.\<close>

lemma calculate_progress_width_least:
  assumes "0 < cfg_column_width (gantt_config g)"
    and "distinct (cfg_ignored_positions (gantt_config g))"
    and "task_progress (bar_task this) = Num p"
    and "reports_ignored_columns g"
  shows "calculate_progress_width g this
     = Some (Num (spec_progress_width (set (cfg_ignored_positions (gantt_config g)))
          (cfg_column_width (gantt_config g)) (bar_x this) (rect_width (bar_rect this)) p))"
proof -
  let ?c = "cfg_column_width (gantt_config g)"
  let ?P = "set (cfg_ignored_positions (gantt_config g))"
  let ?w = "progress_width_before_loop (gantt_config g) (bar_x this)
              (rect_width (bar_rect this)) p"
  from reported_columns_bounded [OF assms(1,4)] obtain B where
    "\<forall>pos. get_ignored_region g (Num pos) \<noteq> [] \<longrightarrow> pos < B" by blast
  from leaves_bounded_regions [OF assms(1) this, of "bar_x this + ?w"]
  have "extend_progress g (bar_x this) ?w
     = Some (?w + of_nat (LEAST n. get_ignored_region g
                 (Num (bar_x this + ?w + of_nat n * ?c)) = []) * ?c)"
    by (rule extend_progress_least)
  moreover have "(get_ignored_region g (Num pos) = [])
        = (\<not> inside_ignored_region ?P ?c pos)" for pos
    using assms(4) unfolding reports_ignored_columns_def by blast
  ultimately have "extend_progress g (bar_x this) ?w
     = Some (?w + of_nat (LEAST n. \<not> inside_ignored_region ?P ?c
                 (bar_x this + ?w + of_nat n * ?c)) * ?c)"
    by simp
  then show ?thesis
    unfolding calculate_progress_width_def spec_progress_width_def Let_def
    by (simp add: assms(3) progress_width_before_loop_spec [OF assms(2)])
qed

text \<open>The scenario of section 8 on any chart that reports the ignored column
  \<open>[60,90)\<close>: half of the 120 pixels outside it is 60, no ignored position lies in
  \<open>[0,60)\<close>, and the right edge 60 is the first pixel of the ignored column, so one
  column width is added.\<close>

lemma holiday_scenario:
  assumes "reports_ignored_columns g"
    and "cfg_column_width (gantt_config g) = 30"
    and "cfg_ignored_positions (gantt_config g) = [60]"
    and "bar_x this = 0" and "rect_width (bar_rect this) = 150"
    and "task_progress (bar_task this) = Num 50"
  shows "calculate_progress_width g this = Some (Num 90)"
proof -
  have before: "progress_width_before_loop (gantt_config g) 0 150 50 = 60"
    by (simp add: progress_width_before_loop_def count_ignored_def Let_def assms(2,3))
  have "(get_ignored_region g (Num pos) \<noteq> []) = (60 \<le> pos \<and> pos < 90)" for pos
    using assms(1) by (simp add: reports_ignored_columns_def inside_ignored_region_def assms(2,3))
  then have r: "(get_ignored_region g (Num pos) = []) = (\<not> (60 \<le> pos \<and> pos < 90))" for pos
    by blast
  have "extend_progress g 0 60 = Some (60 + of_nat (Suc 0) * cfg_column_width (gantt_config g))"
    by (rule extend_progress_steps) (simp_all add: r assms(2))
  then have "extend_progress g 0 60 = Some 90"
    by (simp add: assms(2))
  then show ?thesis
    by (simp add: calculate_progress_width_def assms(4,5,6) before)
qed

text \<open>The day charts report their ignored columns.\<close>

lemma day_chart_fields:
  "cfg_column_width (gantt_config (day_chart ign c)) = 30"
  "cfg_ignored_positions (gantt_config (day_chart ign c)) = ign"
  "get_ignored_region (day_chart ign c) (Num pos)
     = filter (\<lambda>val. val \<le> pos \<and> pos < val + 30) ign"
  "get_ignored_region (day_chart ign c) NaN = []"
  by (simp_all add: day_chart_def day_config_def)

lemma day_chart_reports: "reports_ignored_columns (day_chart ign c)"
  by (auto simp: reports_ignored_columns_def inside_ignored_region_def day_chart_fields
        filter_empty_conv)

lemma holiday_bar_fields:
  "bar_x holiday_bar = 0"
  "rect_width (bar_rect holiday_bar) = 150"
  "task_progress (bar_task holiday_bar) = Num 50"
  by (simp_all add: holiday_bar_def placed_bar_def new_bar_def holiday_task_def new_task_def)

lemma holiday_progress_width:
  "calculate_progress_width holiday_chart holiday_bar = Some (Num 90)"
  unfolding holiday_chart_def
  by (rule holiday_scenario) (simp_all add: day_chart_reports day_chart_fields holiday_bar_fields)

text \<open>
  Claim C1. For a column width \<open>c > 0\<close>, a set of ignored positions (a list without
  repetitions) whose columns the chart reports, and a numeric progress \<open>p\<close>,
  \<open>calculate_progress_width\<close> returns what section 4.2 describes: with
  \<open>total_ignored_area\<close> being \<open>c\<close> times the number of ignored positions in
  \<open>[x, x + w)\<close>, the width \<open>(w - total_ignored_area) * p / 100\<close>, plus \<open>c\<close> times the
  number of ignored positions in \<open>[x, x + progress_width)\<close>, plus one \<open>c\<close> for every round
  in which the right edge is still inside an ignored region. In the scenario of
  section 8 (one ignored column \<open>[60,90)\<close>, \<open>x = 0\<close>, \<open>w = 150\<close>, \<open>p = 50\<close>) that value
  is 90, not the naive \<open>150 * 50 / 100 = 75\<close>.
\<close>

theorem calculate_progress_width_follows_spec:
  "0 < cfg_column_width (gantt_config g)
   \<Longrightarrow> distinct (cfg_ignored_positions (gantt_config g))
   \<Longrightarrow> reports_ignored_columns g
   \<Longrightarrow> task_progress (bar_task this) = Num p
   \<Longrightarrow> calculate_progress_width g this
         = Some (Num (spec_progress_width (set (cfg_ignored_positions (gantt_config g)))
              (cfg_column_width (gantt_config g)) (bar_x this) (rect_width (bar_rect this)) p))
       \<and> (cfg_column_width (gantt_config g) = 30
            \<and> cfg_ignored_positions (gantt_config g) = [60]
            \<and> bar_x this = 0 \<and> rect_width (bar_rect this) = 150 \<and> p = 50
          \<longrightarrow> calculate_progress_width g this = Some (Num 90)
              \<and> spec_progress_width {60} 30 0 150 50 = 90
              \<and> spec_progress_width {60} 30 0 150 50 \<noteq> 150 * 50 / 100)"
proof -
  assume a: "0 < cfg_column_width (gantt_config g)"
    "distinct (cfg_ignored_positions (gantt_config g))"
    "reports_ignored_columns g"
    "task_progress (bar_task this) = Num p"
  note general = calculate_progress_width_least [OF a(1,2,4,3)]
  have "calculate_progress_width g this = Some (Num 90)
          \<and> spec_progress_width {60} 30 0 150 50 = 90
          \<and> spec_progress_width {60} 30 0 150 50 \<noteq> 150 * 50 / 100"
    if s: "cfg_column_width (gantt_config g) = 30
            \<and> cfg_ignored_positions (gantt_config g) = [60]
            \<and> bar_x this = 0 \<and> rect_width (bar_rect this) = 150 \<and> p = 50"
  proof -
    from s a(3,4) have v: "calculate_progress_width g this = Some (Num 90)"
      by (intro holiday_scenario) simp_all
    with general s have "spec_progress_width {60} 30 0 150 50 = 90" by simp
    with v show ?thesis by simp
  qed
  with general show ?thesis by blast
qed

theorem calculate_progress_width_follows_spec_witness:
  "0 < cfg_column_width (gantt_config holiday_chart)
   \<and> distinct (cfg_ignored_positions (gantt_config holiday_chart))
   \<and> reports_ignored_columns holiday_chart
   \<and> task_progress (bar_task holiday_bar) = Num 50
   \<and> cfg_column_width (gantt_config holiday_chart) = 30
   \<and> cfg_ignored_positions (gantt_config holiday_chart) = [60]
   \<and> bar_x holiday_bar = 0 \<and> rect_width (bar_rect holiday_bar) = 150
   \<and> calculate_progress_width holiday_chart holiday_bar
       = Some (Num (spec_progress_width {60} 30 0 150 50))
   \<and> calculate_progress_width holiday_chart holiday_bar = Some (Num 90)"
  using calculate_progress_width_follows_spec [of holiday_chart holiday_bar 50]
  by (simp add: holiday_chart_def day_chart_reports day_chart_fields holiday_bar_fields)




section \<open>Running the geometry twice\<close>

lemma clamp_progress_idem: "clamp_progress (clamp_progress v) = clamp_progress v"
  by (cases v) (auto simp: clamp_progress_def Let_def)

lemma calculate_progress_width_ignores_stored:
  "calculate_progress_width g (this\<lparr>bar_progress_width := w\<rparr>)
     = calculate_progress_width g this"
  by (simp add: calculate_progress_width_def split: option.splits)

text \<open>
  Claim C9. When the geometry pass (\<open>prepare_values\<close>, the drawing of the bar and
  \<open>calculate_progress_width\<close>) returns a bar, running it again on that bar with the same
  chart returns the same bar: \<open>x\<close>, \<open>y\<close>, \<open>width\<close>, \<open>height\<close>, \<open>progress_width\<close>
  and every other field are unchanged, the clamped progress being clamped to itself.
  \<open>compute_x\<close>, \<open>compute_y\<close> and \<open>compute_duration\<close> may be any functions of the chart
  and the task that do not read the progress, the one thing the first pass changes in
  the task.
\<close>

theorem geometry_idempotent:
  assumes "\<And>t p. compute_x m g (t\<lparr>task_progress := p\<rparr>) = compute_x m g t"
    and "\<And>t p. compute_y m g (t\<lparr>task_progress := p\<rparr>) = compute_y m g t"
    and "\<And>t p. compute_duration m g (t\<lparr>task_progress := p\<rparr>) = compute_duration m g t"
    and "geometry m g this = Some b"
  shows "geometry m g b = Some b"
proof -
  let ?d = "draw_bar (prepare_values m g this)"
  have swap: "t\<lparr>task_progress := p, task_start_date := s, task_end_date := e\<rparr>
      = (t\<lparr>task_start_date := s, task_end_date := e\<rparr>)\<lparr>task_progress := p\<rparr>"
    for t :: task and p s e
    by simp
  have x: "compute_x m g (t\<lparr>task_progress := p, task_start_date := s, task_end_date := e\<rparr>)
      = compute_x m g (t\<lparr>task_start_date := s, task_end_date := e\<rparr>)" for t p s e
    by (simp only: swap assms(1))
  have y: "compute_y m g (t\<lparr>task_progress := p, task_start_date := s, task_end_date := e\<rparr>)
      = compute_y m g (t\<lparr>task_start_date := s, task_end_date := e\<rparr>)" for t p s e
    by (simp only: swap assms(2))
  have d: "compute_duration m g
        (t\<lparr>task_progress := p, task_start_date := s, task_end_date := e\<rparr>)
      = compute_duration m g (t\<lparr>task_start_date := s, task_end_date := e\<rparr>)" for t p s e
    by (simp only: swap assms(3))
  have again: "draw_bar (prepare_values m g (?d\<lparr>bar_progress_width := w\<rparr>))
      = ?d\<lparr>bar_progress_width := w\<rparr>" for w
    by (simp add: prepare_values_def draw_bar_def Let_def clamp_progress_idem x y d)
  have again': "draw_bar (prepare_values m g ?d) = ?d"
    using again [of "bar_progress_width ?d"] by simp
  show ?thesis
  proof (cases "bar_invalid ?d")
    case True
    with assms(4) have b: "b = ?d" by (simp add: geometry_def draw_progress_bar_def)
    show ?thesis
      unfolding b geometry_def again'
      using True by (simp add: draw_progress_bar_def)
  next
    case False
    with assms(4) obtain w where w: "calculate_progress_width g ?d = Some w"
      and b: "b = ?d\<lparr>bar_progress_width := w\<rparr>"
      by (auto simp: geometry_def draw_progress_bar_def)
    show ?thesis
      unfolding b geometry_def again
      using False w
      by (simp add: draw_progress_bar_def calculate_progress_width_ignores_stored)
  qed
qed

text \<open>The holiday task on the holiday chart, with the methods of section 4.2: the bar is
  drawn at \<open>(0, 94)\<close>, 150 wide and 30 high, and its progress width is 90.\<close>

lemma holiday_drawn:
  "bar_x (draw_bar (prepare_values spec_methods holiday_chart (new_bar holiday_task))) = 0"
  "bar_y (draw_bar (prepare_values spec_methods holiday_chart (new_bar holiday_task))) = 94"
  "bar_width (draw_bar (prepare_values spec_methods holiday_chart (new_bar holiday_task)))
     = 150"
  "bar_height (draw_bar (prepare_values spec_methods holiday_chart (new_bar holiday_task)))
     = 30"
  "rect_width (bar_rect
      (draw_bar (prepare_values spec_methods holiday_chart (new_bar holiday_task)))) = 150"
  "task_progress (bar_task
      (draw_bar (prepare_values spec_methods holiday_chart (new_bar holiday_task)))) = Num 50"
  "\<not> bar_invalid (draw_bar (prepare_values spec_methods holiday_chart (new_bar holiday_task)))"
  by (simp_all add: draw_bar_def prepare_values_def new_bar_def Let_def spec_methods_def
        holiday_chart_def holiday_task_def new_task_def day_chart_def day_config_def
        clamp_progress_def)

lemma holiday_geometry:
  "geometry spec_methods holiday_chart (new_bar holiday_task)
     = Some ((draw_bar (prepare_values spec_methods holiday_chart (new_bar holiday_task)))
               \<lparr>bar_progress_width := Num 90\<rparr>)"
proof -
  have "calculate_progress_width holiday_chart
          (draw_bar (prepare_values spec_methods holiday_chart (new_bar holiday_task)))
      = Some (Num 90)"
    unfolding holiday_chart_def
    by (rule holiday_scenario)
       (simp_all add: day_chart_reports day_chart_fields
          holiday_drawn [unfolded holiday_chart_def])
  then show ?thesis
    by (simp add: geometry_def draw_progress_bar_def holiday_drawn)
qed

theorem geometry_idempotent_witness:
  "\<exists>b. geometry spec_methods holiday_chart (new_bar holiday_task) = Some b
       \<and> geometry spec_methods holiday_chart b = Some b
       \<and> bar_x b = 0 \<and> bar_y b = 94 \<and> bar_width b = 150 \<and> bar_height b = 30
       \<and> bar_progress_width b = Num 90"
proof -
  have "geometry spec_methods holiday_chart
          ((draw_bar (prepare_values spec_methods holiday_chart (new_bar holiday_task)))
               \<lparr>bar_progress_width := Num 90\<rparr>)
      = Some ((draw_bar (prepare_values spec_methods holiday_chart (new_bar holiday_task)))
               \<lparr>bar_progress_width := Num 90\<rparr>)"
    by (rule geometry_idempotent [OF _ _ _ holiday_geometry])
       (simp_all add: spec_methods_def)
  with holiday_geometry show ?thesis
    by (simp add: holiday_drawn)
qed

section \<open>The progress width against the bar width\<close>

lemma weekend_bars:
  "bar_x friday_bar = 0"
  "rect_width (bar_rect friday_bar) = 30"
  "task_progress (bar_task friday_bar) = Num 100"
  "bar_x short_bar = 40"
  "rect_width (bar_rect short_bar) = 10"
  "task_progress (bar_task short_bar) = Num 100"
  by (simp_all add: friday_bar_def short_bar_def placed_bar_def new_bar_def new_task_def)

lemma weekend_loops:
  "extend_progress weekend_chart 0 30 = Some 60"
  "extend_progress weekend_chart 40 10 = Some 40"
proof -
  have "extend_progress (day_chart [30] 5) 0 30
      = Some (30 + of_nat (Suc 0) * cfg_column_width (gantt_config (day_chart [30] 5)))"
    by (rule extend_progress_steps) (simp_all add: day_chart_fields)
  then show "extend_progress weekend_chart 0 30 = Some 60"
    by (simp add: weekend_chart_def day_chart_fields)
  have "extend_progress (day_chart [30] 5) 40 10
      = Some (10 + of_nat (Suc 0) * cfg_column_width (gantt_config (day_chart [30] 5)))"
    by (rule extend_progress_steps) (simp_all add: day_chart_fields)
  then show "extend_progress weekend_chart 40 10 = Some 40"
    by (simp add: weekend_chart_def day_chart_fields)
qed

lemma weekend_before:
  "progress_width_before_loop (gantt_config weekend_chart) 0 30 100 = 30"
  "progress_width_before_loop (gantt_config weekend_chart) 40 10 100 = 10"
  by (simp_all add: progress_width_before_loop_def count_ignored_def Let_def
        weekend_chart_def day_chart_fields)

lemma weekend_progress_widths:
  "calculate_progress_width weekend_chart friday_bar = Some (Num 60)"
  "calculate_progress_width weekend_chart short_bar = Some (Num 40)"
  by (simp_all add: calculate_progress_width_def weekend_bars weekend_before weekend_loops)

text \<open>
  Claim C10. The progress width is not bounded by the bar width: there are a chart
  with a positive column width that reports its ignored columns and a finished bar with
  no ignored position in \<open>[x, x + w)\<close> whose right edge \<open>x + w\<close> is inside an ignored
  region, and whose progress width is greater than its width \<open>w\<close>.
\<close>

theorem progress_width_can_exceed_width:
  "\<exists>g this w.
      0 < cfg_column_width (gantt_config g)
    \<and> distinct (cfg_ignored_positions (gantt_config g))
    \<and> reports_ignored_columns g
    \<and> task_progress (bar_task this) = Num 100
    \<and> count_ignored (cfg_ignored_positions (gantt_config g)) (bar_x this)
         (bar_x this + rect_width (bar_rect this)) = 0
    \<and> get_ignored_region g (Num (bar_x this + rect_width (bar_rect this))) \<noteq> []
    \<and> calculate_progress_width g this = Some (Num w)
    \<and> rect_width (bar_rect this) < w"
proof -
  have "0 < cfg_column_width (gantt_config weekend_chart)
    \<and> distinct (cfg_ignored_positions (gantt_config weekend_chart))
    \<and> reports_ignored_columns weekend_chart
    \<and> task_progress (bar_task friday_bar) = Num 100
    \<and> count_ignored (cfg_ignored_positions (gantt_config weekend_chart)) (bar_x friday_bar)
         (bar_x friday_bar + rect_width (bar_rect friday_bar)) = 0
    \<and> get_ignored_region weekend_chart
         (Num (bar_x friday_bar + rect_width (bar_rect friday_bar))) \<noteq> []
    \<and> calculate_progress_width weekend_chart friday_bar = Some (Num 60)
    \<and> rect_width (bar_rect friday_bar) < 60"
    by (simp add: weekend_progress_widths weekend_bars)
       (simp add: weekend_chart_def day_chart_fields day_chart_reports count_ignored_def)
  then show ?thesis by blast
qed

text \<open>On the day chart with the ignored column \<open>[30,60)\<close>: a finished one-day task has
  a bar of width 30 and the progress width 60; a finished task of width 10 that lies
  inside the ignored column has the progress width 40.\<close>

theorem progress_width_can_exceed_width_witness:
  "(\<exists>g this w. calculate_progress_width g this = Some (Num w)
       \<and> rect_width (bar_rect this) < w)
   \<and> rect_width (bar_rect friday_bar) = 30
   \<and> calculate_progress_width weekend_chart friday_bar = Some (Num 60)
   \<and> rect_width (bar_rect short_bar) = 10
   \<and> calculate_progress_width weekend_chart short_bar = Some (Num 40)"
proof -
  from progress_width_can_exceed_width
  have "\<exists>g this w. calculate_progress_width g this = Some (Num w)
       \<and> rect_width (bar_rect this) < w"
    by blast
  then show ?thesis
    by (simp add: weekend_progress_widths weekend_bars)
qed

end
